theory Spec2Isabelle
  imports Main
begin

section \<open>Package signals: the Handler\<close>

text \<open>
  The Go source:
  \<^verbatim>\<open>
  type SignalReceiver interface { Stop() error }
  type Logger interface { Log(keyvals ...interface{}) error }
  type Handler struct {
      log       Logger
      receivers []SignalReceiver
      quit      chan struct{}
  }
  \<close>
  An implementation of an interface is taken as a value that is there (not nil) and whose
  method returns. A \<open>SignalReceiver\<close> is its name and the error its \<open>Stop\<close> returns
  (\<open>None\<close> for nil); a \<open>Logger\<close> is the error its \<open>Log\<close> returns for an entry. What the
  program does to the outside is recorded as a list of effects, oldest first.
\<close>

type_synonym go_err = "string option"

datatype SignalReceiver = SignalReceiver (rname: string) (receiver_Stop: go_err)

type_synonym Logger = "string list \<Rightarrow> go_err"

text \<open>Two loggers: one that takes every entry, one that fails on every entry.\<close>

definition silent_Logger :: Logger where
  "silent_Logger kv = None"

definition failing_Logger :: Logger where
  "failing_Logger kv = Some ''log failed''"

text \<open>
  \<open>quit\<close> is an unbuffered \<open>chan struct{}\<close> on which nothing is ever sent: all that matters
  is whether it has been closed. A receive on it is ready exactly when it is closed.
\<close>

datatype chan = Open | Closed

datatype panic = Close_of_closed_channel

record Handler =
  log :: Logger
  receivers :: "SignalReceiver list"
  quit :: chan

datatype signal = SIGINT | SIGQUIT | SIGTERM | Other_signal nat

text \<open>A context is the background one or one with a timeout (a \<open>time.Duration\<close>, in nanoseconds).\<close>

datatype Context = context_Background | context_WithTimeout Context int

datatype effect =
    Log "string list"
  | Stop_called string go_err
  | Go_HTTP_Serve string go_err
  | Go_GRPC_Serve string go_err
  | GRPC_GracefulStop
  | HTTP_Shutdown Context go_err
  | GRPC_Stop
  | Cancel_context

text \<open>\<^verbatim>\<open>func NewHandler(log Logger, receivers ...SignalReceiver) *Handler\<close>\<close>

definition NewHandler :: "Logger \<Rightarrow> SignalReceiver list \<Rightarrow> Handler" where
  "NewHandler lg rs = \<lparr>log = lg, receivers = rs, quit = Open\<rparr>"

text \<open>Go's builtin \<open>close\<close>: closing a closed channel panics.\<close>

definition close_chan :: "chan \<Rightarrow> panic + chan" where
  "close_chan c = (case c of Open \<Rightarrow> Inr Closed | Closed \<Rightarrow> Inl Close_of_closed_channel)"

text \<open>\<^verbatim>\<open>func (h *Handler) Stop() { close(h.quit) }\<close>\<close>

definition Stop :: "Handler \<Rightarrow> panic + Handler" where
  "Stop h = (case close_chan (quit h) of Inl p \<Rightarrow> Inl p | Inr c \<Rightarrow> Inr (h\<lparr>quit := c\<rparr>))"

subsection \<open>Loop\<close>

text \<open>
  \<^verbatim>\<open>
  func (h *Handler) Loop() {
      sigs := make(chan os.Signal, 1)
      signal.Notify(sigs, syscall.SIGINT, syscall.SIGQUIT, syscall.SIGTERM)
      buf := make([]byte, 1<<20)
      for {
          select {
          case <-h.quit:
              h.log.Log("sighandler", "=== Handler.Stop()'d ===")
              return
          case sig := <-sigs:
              switch sig {
              case syscall.SIGINT, syscall.SIGTERM:
                  h.log.Log("sighandler", "=== received SIGINT/SIGTERM ===")
                  for _, subsystem := range h.receivers { subsystem.Stop() }
                  return
              case syscall.SIGQUIT:
                  stacklen := runtime.Stack(buf, true)
                  h.log.Log("sighandler", "=== received SIGQUIT ===")
                  h.log.Log("sighandler", "*** goroutine dump...start ***")
                  h.log.Log("sighandler", string(buf[:stacklen]))
                  h.log.Log("sighandler", "*** goroutine dump...end ***")
              }
          }
      }
  }
  \<close>
  The Handler is shared between the goroutine that runs \<open>Loop\<close> and the callers of \<open>Stop\<close>,
  and the operating system delivers signals at any time. The state of a running \<open>Loop\<close> is
  the Handler, the content of the channel \<open>sigs\<close> (capacity 1), whether the loop is still in
  its \<open>select\<close> or has returned, and the effects so far.
\<close>

datatype status = In_select | Returned

record loop_state =
  hdl :: Handler
  sigs :: "signal option"
  status :: status
  trace :: "effect list"

text \<open>Entering \<open>Loop\<close>: a fresh, empty \<open>sigs\<close>; the loop is about to select.\<close>

definition Loop_enter :: "Handler \<Rightarrow> effect list \<Rightarrow> loop_state" where
  "Loop_enter h tr = \<lparr>hdl = h, sigs = None, status = In_select, trace = tr\<rparr>"

text \<open>\<^verbatim>\<open>h.log.Log(keyvals...)\<close>: the entry is written, the error returned is dropped.\<close>

definition Log_call :: "string list \<Rightarrow> loop_state \<Rightarrow> loop_state" where
  "Log_call kv s = (case log (hdl s) kv of _ \<Rightarrow> s\<lparr>trace := trace s @ [Log kv]\<rparr>)"

text \<open>\<^verbatim>\<open>for _, subsystem := range h.receivers { subsystem.Stop() }\<close>\<close>

fun stop_receivers :: "SignalReceiver list \<Rightarrow> loop_state \<Rightarrow> loop_state" where
  "stop_receivers [] s = s"
| "stop_receivers (r # rs) s =
     (case receiver_Stop r of _ \<Rightarrow>
        stop_receivers rs (s\<lparr>trace := trace s @ [Stop_called (rname r) (receiver_Stop r)]\<rparr>))"

text \<open>
  \<open>buf\<close> has \<open>1 << 20\<close> bytes. \<open>runtime.Stack(buf, true)\<close> writes the stack traces of all
  goroutines into \<open>buf\<close>, as much as fits, and returns the number of bytes written; only
  \<open>buf[:stacklen]\<close> is read afterwards. The text the runtime has to write is an input.
\<close>

definition buf_len :: nat where
  "buf_len = 2 ^ 20"

definition runtime_Stack :: "nat \<Rightarrow> string \<Rightarrow> string \<times> nat" where
  "runtime_Stack n stack = (take n stack, min (length stack) n)"

text \<open>The notice \<^verbatim>\<open>=== Handler.Stop()'d ===\<close> (with its apostrophe, character 0x27).\<close>

definition Stopped_notice :: string where
  "Stopped_notice = ''=== Handler.Stop()'' @ [CHR 0x27] @ ''d ===''"

definition case_quit :: "loop_state \<Rightarrow> loop_state" where
  "case_quit s = (Log_call [''sighandler'', Stopped_notice] s)\<lparr>status := Returned\<rparr>"

definition case_sig :: "signal \<Rightarrow> string \<Rightarrow> loop_state \<Rightarrow> loop_state" where
  "case_sig sg stack s =
     (if sg = SIGINT \<or> sg = SIGTERM then
        (stop_receivers (receivers (hdl s))
           (Log_call [''sighandler'', ''=== received SIGINT/SIGTERM ===''] s))\<lparr>status := Returned\<rparr>
      else if sg = SIGQUIT then
        (case runtime_Stack buf_len stack of (buf, stacklen) \<Rightarrow>
           Log_call [''sighandler'', ''*** goroutine dump...end ***'']
             (Log_call [''sighandler'', take stacklen buf]
                (Log_call [''sighandler'', ''*** goroutine dump...start ***'']
                   (Log_call [''sighandler'', ''=== received SIGQUIT ===''] s))))
      else s)"

text \<open>
  One turn of the \<open>for\<close> loop. \<open>select\<close> blocks while no case is ready, takes the ready
  case when there is one, and picks one of them when both are ready: \<open>pick\<close> is that
  choice (True for \<open>quit\<close>). \<open>stack\<close> is what the runtime would dump during this turn.
  A loop that has returned does nothing more.
\<close>

definition Loop_iter :: "bool \<Rightarrow> string \<Rightarrow> loop_state \<Rightarrow> loop_state" where
  "Loop_iter pick stack s =
     (case status s of
        Returned \<Rightarrow> s
      | In_select \<Rightarrow>
          (case sigs s of
             None \<Rightarrow> (case quit (hdl s) of Open \<Rightarrow> s | Closed \<Rightarrow> case_quit s)
           | Some sg \<Rightarrow>
               (if quit (hdl s) = Closed \<and> pick then case_quit s
                else case_sig sg stack (s\<lparr>sigs := None\<rparr>))))"

text \<open>
  \<open>signal.Notify\<close> relays the three signals asked for, without blocking: a signal that
  finds \<open>sigs\<close> full is dropped, a signal not asked for is not relayed.
\<close>

definition Notify_deliver :: "signal \<Rightarrow> loop_state \<Rightarrow> loop_state" where
  "Notify_deliver sg s =
     (if sg \<in> {SIGINT, SIGQUIT, SIGTERM} \<and> sigs s = None then s\<lparr>sigs := Some sg\<rparr> else s)"

text \<open>
  What can happen while \<open>Loop\<close> runs: some goroutine calls \<open>Stop\<close>, the operating system
  delivers a signal, the loop takes a turn. A panic in any goroutine ends the process.
\<close>

datatype action = Call_Stop | Deliver signal | Turn bool string

fun step :: "action \<Rightarrow> loop_state \<Rightarrow> panic + loop_state" where
  "step Call_Stop s = (case Stop (hdl s) of Inl p \<Rightarrow> Inl p | Inr h \<Rightarrow> Inr (s\<lparr>hdl := h\<rparr>))"
| "step (Deliver sg) s = Inr (Notify_deliver sg s)"
| "step (Turn pick stack) s = Inr (Loop_iter pick stack s)"

fun exec :: "action list \<Rightarrow> loop_state \<Rightarrow> panic + loop_state" where
  "exec [] s = Inr s"
| "exec (a # as) s = (case step a s of Inl p \<Rightarrow> Inl p | Inr s' \<Rightarrow> exec as s')"

text \<open>
  The call \<open>h.Loop()\<close> itself, seen by its caller: it has returned as soon as the loop has,
  it is still waiting when the schedule ends before that, and it never comes back when the
  process dies first. \<open>tr\<close> holds the effects that came before the call.
\<close>

datatype loop_outcome = Loop_returned loop_state | Loop_waiting loop_state | Process_dead panic

fun run_Loop :: "action list \<Rightarrow> loop_state \<Rightarrow> loop_outcome" where
  "run_Loop [] s = (if status s = Returned then Loop_returned s else Loop_waiting s)"
| "run_Loop (a # as) s =
     (if status s = Returned then Loop_returned s
      else (case step a s of Inl p \<Rightarrow> Process_dead p | Inr s' \<Rightarrow> run_Loop as s'))"

definition Loop :: "Handler \<Rightarrow> effect list \<Rightarrow> action list \<Rightarrow> loop_outcome" where
  "Loop h tr sched = run_Loop sched (Loop_enter h tr)"

section \<open>Package server\<close>

subsection \<open>Errors\<close>

text \<open>
  An error of the standard library is its message. \<open>errors.Wrap(err, msg)\<close> of
  \<open>github.com/pkg/errors\<close> gives nil for nil, and otherwise puts a message and the call
  stack of the caller around \<open>err\<close>; of the stack the model keeps the line of the call in
  \<open>server.go\<close>. \<open>Error()\<close> of the result is \<open>msg + ": " + err.Error()\<close>: the stack is
  not part of the message.
\<close>

datatype error = errorString string | withMessage error string | withStack error nat

fun Error :: "error \<Rightarrow> string" where
  "Error (errorString m) = m"
| "Error (withMessage cause m) = m @ '': '' @ Error cause"
| "Error (withStack e line) = Error e"

fun Wrap :: "error option \<Rightarrow> string \<Rightarrow> nat \<Rightarrow> error option" where
  "Wrap None m line = None"
| "Wrap (Some err) m line = Some (withStack (withMessage err m) line)"

subsection \<open>Formatting a port\<close>

text \<open>\<open>fmt.Sprintf(":%d", port)\<close>: a colon and the decimal digits, with a minus sign if negative.\<close>

fun show_nat :: "nat \<Rightarrow> string" where
  "show_nat n = (if n < 10 then [''0123456789'' ! n] else show_nat (n div 10) @ [''0123456789'' ! (n mod 10)])"

definition show_int :: "int \<Rightarrow> string" where
  "show_int i = (if i < 0 then ''-'' @ show_nat (nat (- i)) else show_nat (nat i))"

definition port_address :: "int \<Rightarrow> string" where
  "port_address port = '':'' @ show_int port"

subsection \<open>HTTP handlers, middleware and the router\<close>

text \<open>
  A request is its path. A handler answers a request with the names of those that saw it,
  in order. \<open>middleware.Interface\<close> has one method, \<open>Wrap(http.Handler) http.Handler\<close>.
\<close>

type_synonym http_handler = "string \<Rightarrow> string list"
type_synonym middleware = "http_handler \<Rightarrow> http_handler"

text \<open>
  Modelled from the spec: \<open>middleware.Merge\<close> is in package \<open>middleware\<close> of this
  repository, which is not among the source files. The spec calls its result "a configured
  middleware chain wrapping the application's route handler", made of "a list of HTTP
  middleware wrappers": every wrapper of the list is put around the handler, the first one
  outermost.
\<close>

definition Merge :: "middleware list \<Rightarrow> middleware" where
  "Merge ms next = foldr (\<lambda>m h. m h) ms next"

text \<open>
  \<open>path.Clean\<close> of the standard library, on a rooted path (the only kind the router gives
  it): the path is cut at its slashes; an empty element and \<open>.\<close> are dropped, \<open>..\<close> drops
  the element before it, or nothing at the root; what is left is joined again behind a
  leading slash.
\<close>

fun split_slash :: "string \<Rightarrow> string list" where
  "split_slash [] = [[]]"
| "split_slash (c # cs) =
     (if c = CHR ''/'' then [] # split_slash cs
      else (case split_slash cs of [] \<Rightarrow> [[c]] | e # es \<Rightarrow> (c # e) # es))"

fun clean_elements :: "string list \<Rightarrow> string list \<Rightarrow> string list" where
  "clean_elements [] out = out"
| "clean_elements (e # es) out =
     (if e = [] then clean_elements es out
      else if e = ''.'' then clean_elements es out
      else if e = ''..'' then clean_elements es (butlast out)
      else clean_elements es (out @ [e]))"

fun join_slash :: "string list \<Rightarrow> string" where
  "join_slash [] = []"
| "join_slash [e] = e"
| "join_slash (e # e' # es) = e @ ''/'' @ join_slash (e' # es)"

definition path_Clean :: "string \<Rightarrow> string" where
  "path_Clean p = ''/'' @ join_slash (clean_elements (split_slash p) [])"

text \<open>
  \<^verbatim>\<open>
  func cleanPath(p string) string {
      if p == "" { return "/" }
      if p[0] != '/' { p = "/" + p }
      np := path.Clean(p)
      if p[len(p)-1] == '/' && np != "/" { np += "/" }
      return np
  }
  \<close>
  of \<open>gorilla/mux\<close>.
\<close>

definition cleanPath :: "string \<Rightarrow> string" where
  "cleanPath p =
     (case p of
        [] \<Rightarrow> ''/''
      | c # cs \<Rightarrow>
          (let p1 = (if c = CHR ''/'' then p else ''/'' @ p);
               np = path_Clean p1
           in if last p1 = CHR ''/'' \<and> np \<noteq> ''/'' then np @ ''/'' else np))"

text \<open>
  A router of \<open>gorilla/mux\<close> is its routes, in the order of their registration.
  \<open>router.Handle(path, h)\<close> adds a route for exactly this path,
  \<open>router.PathPrefix(p).Handler(h)\<close> one for every path that starts with \<open>p\<close>.
  \<open>Router.ServeHTTP\<close> of a router made by \<open>mux.NewRouter()\<close> first cleans the path of
  the request: when the clean path differs, the router itself answers 301 with the clean
  path as the new location, and no route is tried. Otherwise the first route that matches
  handles the request, and no match is a 404.
  \<^verbatim>\<open>
  func (r *Router) ServeHTTP(w http.ResponseWriter, req *http.Request) {
      if !r.skipClean {
          path := req.URL.Path
          if p := cleanPath(path); p != path {
              w.Header().Set("Location", p)
              w.WriteHeader(http.StatusMovedPermanently)
              return
          }
      }
      var handler http.Handler
      if r.Match(req, &match) { handler = match.Handler }
      if handler == nil { handler = http.NotFoundHandler() }
      handler.ServeHTTP(w, req)
  }
  \<close>
\<close>

datatype matcher = Path string | PathPrefix string

type_synonym router = "(matcher \<times> http_handler) list"

fun matches :: "matcher \<Rightarrow> string \<Rightarrow> bool" where
  "matches (Path p) req = (req = p)"
| "matches (PathPrefix p) req = (take (length p) req = p)"

fun Match :: "router \<Rightarrow> string \<Rightarrow> http_handler option" where
  "Match [] req = None"
| "Match ((m, h) # routes) req = (if matches m req then Some h else Match routes req)"

definition http_NotFoundHandler :: http_handler where
  "http_NotFoundHandler req = [''404 page not found'']"

definition ServeHTTP :: "router \<Rightarrow> http_handler" where
  "ServeHTTP routes req =
     (let p = cleanPath req
      in if p = req
         then (case Match routes req of
                 Some h \<Rightarrow> h req
               | None \<Rightarrow> http_NotFoundHandler req)
         else [''301 Moved Permanently'', p])"

definition mux_NewRouter :: router where
  "mux_NewRouter = []"

definition prometheus_Handler :: http_handler where
  "prometheus_Handler req = [''prometheus.Handler'']"

definition http_DefaultServeMux :: http_handler where
  "http_DefaultServeMux req = [''http.DefaultServeMux'']"

text \<open>
  \<^verbatim>\<open>
  func RegisterInstrumentation(router *mux.Router) {
      router.Handle("/metrics", prometheus.Handler())
      router.PathPrefix("/debug/pprof").Handler(http.DefaultServeMux)
  }
  \<close>
\<close>

definition Register_Instrumentation :: "router \<Rightarrow> router" where
  "Register_Instrumentation router =
     router @ [(Path ''/metrics'', prometheus_Handler)]
            @ [(PathPrefix ''/debug/pprof'', http_DefaultServeMux)]"

subsection \<open>Config and Server\<close>

text \<open>
  A \<open>time.Duration\<close> is a number of nanoseconds. The options and interceptors of gRPC are
  opaque, and so are a listener (its address) and the gRPC server (its options).
  \<open>httpServer.Handler\<close> is built around the pointer \<open>router\<close>, which is also \<open>s.HTTP\<close>:
  routes registered later are seen by it. So the model keeps the handler as a function of
  the router's content and applies it to \<open>HTTP s\<close>.
\<close>

record Config =
  MetricsNamespace :: string
  HTTPListenPort :: int
  GRPCListenPort :: int
  RegisterInstrumentation :: bool
  ExcludeRequestInLog :: bool
  ServerGracefulShutdownTimeout :: int
  HTTPServerReadTimeout :: int
  HTTPServerWriteTimeout :: int
  HTTPServerIdleTimeout :: int
  GRPCOptions :: "string list"
  GRPCMiddleware :: "string list"
  HTTPMiddleware :: "middleware list"

datatype Listener = Listener (laddr: string)

record http_Server =
  ReadTimeout :: int
  WriteTimeout :: int
  IdleTimeout :: int
  Handler_of :: "router \<Rightarrow> http_handler"

datatype grpc_Server = grpc_NewServer "string list"

record Server =
  cfg :: Config
  handler :: Handler
  httpListener :: Listener
  grpcListener :: Listener
  httpServer :: http_Server
  HTTP :: router
  GRPC :: grpc_Server

text \<open>
  \<open>net.Listen(network, address)\<close> asks the operating system: it is a parameter, a function
  of the state \<open>'w\<close> of the system, giving an error or a listener and the new state.
\<close>

type_synonym 'w net_Listen = "'w \<Rightarrow> string \<Rightarrow> string \<Rightarrow> error + Listener \<times> 'w"

text \<open>
  \<^verbatim>\<open>
  func New(cfg Config, logger Logger) (*Server, error) {
      httpListener, err := net.Listen("tcp", fmt.Sprintf(":%d", cfg.HTTPListenPort))
      if err != nil { return nil, errors.Wrap(err, "New Server") }            // line 75
      grpcListener, err := net.Listen("tcp", fmt.Sprintf(":%d", cfg.GRPCListenPort))
      if err != nil { return nil, errors.Wrap(err, "New Server") }            // line 80
      grpcOptions := []grpc.ServerOption{}
      grpcOptions = append(grpcOptions, cfg.GRPCOptions...)
      grpcServer := grpc.NewServer(grpcOptions...)
      router := mux.NewRouter()
      if cfg.RegisterInstrumentation { RegisterInstrumentation(router) }
      httpMiddleware := []middleware.Interface{}
      httpMiddleware = append(httpMiddleware, cfg.HTTPMiddleware...)
      httpServer := &http.Server{ ReadTimeout: ..., WriteTimeout: ..., IdleTimeout: ...,
          Handler: middleware.Merge(httpMiddleware...).Wrap(router) }
      return &Server{ cfg: cfg, httpListener: httpListener, grpcListener: grpcListener,
          httpServer: httpServer, handler: signals.NewHandler(logger),
          HTTP: router, GRPC: grpcServer }, nil
  }
  \<close>
  The two results of Go are a pair; the state of the operating system comes with them.
\<close>

definition New ::
  "'w net_Listen \<Rightarrow> Config \<Rightarrow> Logger \<Rightarrow> 'w \<Rightarrow> (Server option \<times> error option) \<times> 'w" where
  "New net_Listen config logger w =
     (case net_Listen w ''tcp'' (port_address (HTTPListenPort config)) of
        Inl err \<Rightarrow> ((None, Wrap (Some err) ''New Server'' 75), w)
      | Inr (httpL, w1) \<Rightarrow>
          (case net_Listen w1 ''tcp'' (port_address (GRPCListenPort config)) of
             Inl err \<Rightarrow> ((None, Wrap (Some err) ''New Server'' 80), w1)
           | Inr (grpcL, w2) \<Rightarrow>
               (let grpcOptions = [] @ GRPCOptions config;
                    grpcServer = grpc_NewServer grpcOptions;
                    router = (if RegisterInstrumentation config
                              then Register_Instrumentation mux_NewRouter else mux_NewRouter);
                    httpMiddleware = [] @ HTTPMiddleware config;
                    httpSrv = \<lparr>ReadTimeout = HTTPServerReadTimeout config,
                               WriteTimeout = HTTPServerWriteTimeout config,
                               IdleTimeout = HTTPServerIdleTimeout config,
                               Handler_of = (\<lambda>rt. Merge httpMiddleware (ServeHTTP rt))\<rparr>
                in ((Some \<lparr>cfg = config, handler = NewHandler logger [],
                           httpListener = httpL, grpcListener = grpcL,
                           httpServer = httpSrv, HTTP = router, GRPC = grpcServer\<rparr>,
                     None), w2))))"

text \<open>What the HTTP server answers to a request: its handler, on the router as it is now.\<close>

definition serve_request :: "Server \<Rightarrow> http_handler" where
  "serve_request s = Handler_of (httpServer s) (HTTP s)"

text \<open>
  \<^verbatim>\<open>
  func (s *Server) Run() {
      go s.httpServer.Serve(s.httpListener)
      go s.GRPC.Serve(s.grpcListener)
      defer s.GRPC.GracefulStop()
      s.handler.Loop()
  }
  \<close>
  A \<open>go\<close> statement starts the call and drops what it returns: \<open>http_err\<close> and \<open>grpc_err\<close>
  are the errors the two \<open>Serve\<close> calls end with, whenever they end.
\<close>

datatype run_outcome = Run_returned "effect list" | Run_blocked "effect list" | Run_dead panic

definition Run :: "Server \<Rightarrow> go_err \<Rightarrow> go_err \<Rightarrow> action list \<Rightarrow> run_outcome" where
  "Run s http_err grpc_err sched =
     (case Loop (handler s)
             [Go_HTTP_Serve (laddr (httpListener s)) http_err,
              Go_GRPC_Serve (laddr (grpcListener s)) grpc_err] sched of
        Loop_returned st \<Rightarrow> Run_returned (trace st @ [GRPC_GracefulStop])
      | Loop_waiting st \<Rightarrow> Run_blocked (trace st)
      | Process_dead p \<Rightarrow> Run_dead p)"

text \<open>\<^verbatim>\<open>func (s *Server) Stop() { s.handler.Stop() }\<close>\<close>

definition Server_Stop :: "Server \<Rightarrow> panic + Server" where
  "Server_Stop s = (case Stop (handler s) of Inl p \<Rightarrow> Inl p | Inr h \<Rightarrow> Inr (s\<lparr>handler := h\<rparr>))"


subsection \<open>An operating system to run New in\<close>

text \<open>
  The state is the list of the addresses that are bound. Binding a bound address fails
  with the message of Go's \<open>net\<close> package; binding a free one adds it.
\<close>

definition Listen_ports :: "string list net_Listen" where
  "Listen_ports bound network address =
     (if address \<in> set bound
      then Inl (errorString (''listen '' @ network @ '' '' @ address @ '': bind: address already in use''))
      else Inr (Listener address, address # bound))"

subsection \<open>A middleware and a configuration to run New with\<close>

text \<open>
  A middleware that lets every request through: it writes its name on the answer and hands
  the request to the handler it wraps.
\<close>

definition visiting :: "string \<Rightarrow> middleware" where
  "visiting name next req = name # next req"

text \<open>
  \<^verbatim>\<open>
  func (cfg *Config) RegisterFlags(f *flag.FlagSet) {
      f.IntVar(&cfg.HTTPListenPort, "server.http-listen-port", 80, ...)
      f.IntVar(&cfg.GRPCListenPort, "server.grpc-listen-port", 9095, ...)
      f.BoolVar(&cfg.RegisterInstrumentation, "server.register-instrumentation", true, ...)
      f.DurationVar(&cfg.ServerGracefulShutdownTimeout, "server.graceful-shutdown-timeout", 5*time.Second, ...)
      f.DurationVar(&cfg.HTTPServerReadTimeout, "server.http-read-timeout", 5*time.Second, ...)
      f.DurationVar(&cfg.HTTPServerWriteTimeout, "server.http-write-timeout", 5*time.Second, ...)
      f.DurationVar(&cfg.HTTPServerIdleTimeout, "server.http-idle-timeout", 120*time.Second, ...)
  }
  \<close>
  The configuration of a command line with no flags: the defaults above on a zero \<open>Config\<close>.
\<close>

definition default_Config :: Config where
  "default_Config =
     \<lparr>MetricsNamespace = [],
      HTTPListenPort = 80,
      GRPCListenPort = 9095,
      RegisterInstrumentation = True,
      ExcludeRequestInLog = False,
      ServerGracefulShutdownTimeout = 5 * 1000000000,
      HTTPServerReadTimeout = 5 * 1000000000,
      HTTPServerWriteTimeout = 5 * 1000000000,
      HTTPServerIdleTimeout = 120 * 1000000000,
      GRPCOptions = [],
      GRPCMiddleware = [],
      HTTPMiddleware = []\<rparr>"

section \<open>The Handler: what Stop and Loop do\<close>

subsection \<open>Auxiliary facts\<close>

lemma Log_call_eq: "Log_call kv s = s\<lparr>trace := trace s @ [Log kv]\<rparr>"
  by (simp add: Log_call_def)

lemma stop_receivers_eq:
  "stop_receivers rs s =
     s\<lparr>trace := trace s @ map (\<lambda>r. Stop_called (rname r) (receiver_Stop r)) rs\<rparr>"
  by (induction rs arbitrary: s) simp_all

lemma case_sig_SIGQUIT:
  "case_sig SIGQUIT stack s = s\<lparr>trace := trace s @
     [Log [''sighandler'', ''=== received SIGQUIT ===''],
      Log [''sighandler'', ''*** goroutine dump...start ***''],
      Log [''sighandler'', take (2 ^ 20) stack],
      Log [''sighandler'', ''*** goroutine dump...end ***'']]\<rparr>"
  by (simp add: case_sig_def runtime_Stack_def buf_len_def Log_call_eq min_def)

lemma hdl_case_sig [simp]: "hdl (case_sig sg stack s) = hdl s"
  by (simp add: case_sig_def stop_receivers_eq runtime_Stack_def Log_call_eq)

lemma hdl_Loop_iter [simp]: "hdl (Loop_iter pick stack s) = hdl s"
  by (simp add: Loop_iter_def case_quit_def Log_call_eq split: status.split option.split chan.split)

lemma hdl_Notify_deliver [simp]: "hdl (Notify_deliver sg s) = hdl s"
  by (simp add: Notify_deliver_def)

text \<open>Once the channel is closed, the next \<open>Stop\<close> is fatal; while it is open, the second one is.\<close>

lemma exec_closed:
  "quit (hdl s) = Closed \<Longrightarrow> isl (exec sched s) = (1 \<le> count_list sched Call_Stop)"
proof (induction sched arbitrary: s)
  case Nil
  then show ?case by simp
next
  case (Cons a as)
  then show ?case
    by (cases a) (simp_all add: Stop_def close_chan_def)
qed

lemma exec_open:
  "quit (hdl s) = Open \<Longrightarrow> isl (exec sched s) = (2 \<le> count_list sched Call_Stop)"
proof (induction sched arbitrary: s)
  case Nil
  then show ?case by simp
next
  case (Cons a as)
  then show ?case
    by (cases a) (simp_all add: Stop_def close_chan_def exec_closed)
qed

lemma exec_Turn_returned:
  "status s = Returned \<Longrightarrow> exec (replicate k (Turn p d)) s = Inr s"
  by (induction k) (simp_all add: Loop_iter_def)

lemma SIGQUIT_turn:
  assumes "status s = In_select" and "sigs s = None" and "quit (hdl s) = Open \<or> \<not> pick"
  shows "Loop_iter pick stack (Notify_deliver SIGQUIT s) = s\<lparr>trace := trace s @
     [Log [''sighandler'', ''=== received SIGQUIT ===''],
      Log [''sighandler'', ''*** goroutine dump...start ***''],
      Log [''sighandler'', take (2 ^ 20) stack],
      Log [''sighandler'', ''*** goroutine dump...end ***'']]\<rparr>"
proof -
  have n: "s\<lparr>sigs := None\<rparr> = s"
    using assms(2) by simp
  show ?thesis
    using assms by (auto simp: Notify_deliver_def Loop_iter_def n case_sig_SIGQUIT)
qed

lemma Loop_stopped_returns_aux:
  assumes "status s = In_select" and "quit (hdl s) = Closed" and "sigs s = None \<or> pick"
  shows "run_Loop (Turn pick stack # rest) s =
           Loop_returned (s\<lparr>status := Returned,
              trace := trace s @ [Log [''sighandler'', Stopped_notice]]\<rparr>)"
proof -
  have "Loop_iter pick stack s =
          s\<lparr>status := Returned, trace := trace s @ [Log [''sighandler'', Stopped_notice]]\<rparr>"
    using assms by (auto simp: Loop_iter_def case_quit_def Log_call_eq split: option.split)
  then show ?thesis
    using assms(1) by (cases rest) simp_all
qed

subsection \<open>Stop\<close>

text \<open>
  C1, as the spec has it: calling \<open>Stop\<close> any number of times, N at least 1, gives no fatal
  error, and the second and later calls do nothing. The code has no guard: on a fresh
  Handler with no receivers and a logger that never fails, the second of two calls to
  \<open>Stop\<close> closes a closed channel and panics, whether the calls are seen as two steps of
  the process or as two calls in a row.
\<close>

theorem Stop_twice_panics:
  "exec [Call_Stop, Call_Stop] (Loop_enter (NewHandler silent_Logger []) [])
     = Inl Close_of_closed_channel
   \<and> Stop (NewHandler silent_Logger []) = Inr \<lparr>log = silent_Logger, receivers = [], quit = Closed\<rparr>
   \<and> Stop \<lparr>log = silent_Logger, receivers = [], quit = Closed\<rparr> = Inl Close_of_closed_channel"
  by (simp add: Loop_enter_def NewHandler_def Stop_def close_chan_def)

text \<open>
  C1, amended: \<open>Stop\<close> is good for one call. Whatever the logger, the receivers, and the
  schedule of \<open>Stop\<close> calls, signals and turns of the loop that follows the entry into
  \<open>Loop\<close> of a new Handler, the process dies of a panic exactly when the schedule holds two
  calls of \<open>Stop\<close> or more. One call of \<open>Stop\<close> wakes the waiting \<open>Loop\<close> once: at its next
  turn it logs the stop notice and returns, and nothing is logged after that however many
  turns it is given.
\<close>

theorem Stop_once_only:
  "isl (exec sched (Loop_enter (NewHandler lg rs) tr)) = (2 \<le> count_list sched Call_Stop)
   \<and> exec (Call_Stop # Turn pick stack # replicate k (Turn pick' stack'))
           (Loop_enter (NewHandler lg rs) tr)
       = Inr \<lparr>hdl = \<lparr>log = lg, receivers = rs, quit = Closed\<rparr>, sigs = None, status = Returned,
              trace = tr @ [Log [''sighandler'', Stopped_notice]]\<rparr>"
proof
  show "isl (exec sched (Loop_enter (NewHandler lg rs) tr)) = (2 \<le> count_list sched Call_Stop)"
    by (rule exec_open) (simp add: Loop_enter_def NewHandler_def)
next
  let ?s = "\<lparr>hdl = \<lparr>log = lg, receivers = rs, quit = Closed\<rparr>, sigs = None, status = Returned,
              trace = tr @ [Log [''sighandler'', Stopped_notice]]\<rparr>"
  have "exec (replicate k (Turn pick' stack')) ?s = Inr ?s"
    by (rule exec_Turn_returned) simp
  then show "exec (Call_Stop # Turn pick stack # replicate k (Turn pick' stack'))
               (Loop_enter (NewHandler lg rs) tr) = Inr ?s"
    by (simp add: Loop_enter_def NewHandler_def Stop_def close_chan_def Loop_iter_def
          case_quit_def Log_call_eq)
qed

subsection \<open>Loop on SIGINT and SIGTERM\<close>

text \<open>
  C2: a \<open>Loop\<close> that waits with an empty \<open>sigs\<close> and is sent SIGINT or SIGTERM takes the
  signal at its next turn (the stop channel being open, or \<open>select\<close> picking the signal),
  logs the receipt, then calls \<open>Stop\<close> on every receiver of the Handler in the order of the
  list, whatever error each of them returns, and only then returns: nothing else is added to
  the effects, and the rest of the schedule is not looked at.
\<close>

theorem Loop_fanout_order:
  assumes "status s = In_select" and "sigs s = None"
    and "quit (hdl s) = Open \<or> \<not> pick"
    and "sg = SIGINT \<or> sg = SIGTERM"
  shows "run_Loop (Deliver sg # Turn pick stack # rest) s =
           Loop_returned (s\<lparr>status := Returned,
              trace := trace s @ Log [''sighandler'', ''=== received SIGINT/SIGTERM ===''] #
                         map (\<lambda>r. Stop_called (rname r) (receiver_Stop r)) (receivers (hdl s))\<rparr>)"
proof -
  have d: "Notify_deliver sg s = s\<lparr>sigs := Some sg\<rparr>"
    using assms(2,4) by (auto simp: Notify_deliver_def)
  have n: "s\<lparr>sigs := None\<rparr> = s"
    using assms(2) by simp
  have t: "Loop_iter pick stack (s\<lparr>sigs := Some sg\<rparr>) = case_sig sg stack s"
    using assms(1,3) by (auto simp: Loop_iter_def n)
  have c: "case_sig sg stack s = s\<lparr>status := Returned,
              trace := trace s @ Log [''sighandler'', ''=== received SIGINT/SIGTERM ===''] #
                         map (\<lambda>r. Stop_called (rname r) (receiver_Stop r)) (receivers (hdl s))\<rparr>"
    using assms(4) by (auto simp: case_sig_def stop_receivers_eq Log_call_eq)
  show ?thesis
    using assms(1) by (cases rest) (simp_all add: d t c)
qed

text \<open>
  Three receivers, the second of which fails to stop, a logger that fails too, SIGTERM:
  all three are stopped in order, and the SIGQUIT that follows comes too late.
\<close>

theorem Loop_fanout_order_witness:
  "Loop (NewHandler failing_Logger
           [SignalReceiver ''db'' None, SignalReceiver ''cache'' (Some ''boom''),
            SignalReceiver ''api'' None])
        [] [Deliver SIGTERM, Turn True ''stack'', Deliver SIGQUIT]
     = Loop_returned
         \<lparr>hdl = NewHandler failing_Logger
                  [SignalReceiver ''db'' None, SignalReceiver ''cache'' (Some ''boom''),
                   SignalReceiver ''api'' None],
          sigs = None, status = Returned,
          trace = [Log [''sighandler'', ''=== received SIGINT/SIGTERM ===''],
                   Stop_called ''db'' None, Stop_called ''cache'' (Some ''boom''),
                   Stop_called ''api'' None]\<rparr>"
  using Loop_fanout_order [of "Loop_enter (NewHandler failing_Logger
           [SignalReceiver ''db'' None, SignalReceiver ''cache'' (Some ''boom''),
            SignalReceiver ''api'' None]) []"
        True SIGTERM "''stack''" "[Deliver SIGQUIT]"]
  by (simp add: Loop_def Loop_enter_def NewHandler_def)

subsection \<open>Loop on SIGQUIT\<close>

text \<open>
  C3, as the spec has it: each SIGQUIT gives exactly three log entries, a begin marker, the
  dump and an end marker. The code logs the receipt first: one SIGQUIT sent to a new
  Handler gives four entries, and the loop goes on waiting.
\<close>

theorem SIGQUIT_four_entries:
  "Loop (NewHandler silent_Logger []) [] [Deliver SIGQUIT, Turn True ''goroutine 1 [running]:'']
     = Loop_waiting
         \<lparr>hdl = NewHandler silent_Logger [], sigs = None, status = In_select,
          trace = [Log [''sighandler'', ''=== received SIGQUIT ===''],
                   Log [''sighandler'', ''*** goroutine dump...start ***''],
                   Log [''sighandler'', ''goroutine 1 [running]:''],
                   Log [''sighandler'', ''*** goroutine dump...end ***'']]\<rparr>"
  by (simp add: Loop_def Loop_enter_def NewHandler_def Notify_deliver_def Loop_iter_def
        case_sig_SIGQUIT)

text \<open>
  C3, amended: a \<open>Loop\<close> that waits with an empty \<open>sigs\<close> and is sent SIGQUIT any number of
  times, taking each one at its next turn (the stop channel being open, or \<open>select\<close>
  picking the signal every time), never returns for it. Each SIGQUIT adds exactly four log
  entries in this order: the receipt, the begin marker, the dump cut to its first
  \<open>2 ^ 20\<close> bytes, the end marker; after them the loop waits as before.
\<close>

theorem SIGQUIT_never_returns:
  assumes "status s = In_select" and "sigs s = None"
    and "quit (hdl s) = Open \<or> list_all (\<lambda>(pick, stack). \<not> pick) turns"
  shows "run_Loop (concat (map (\<lambda>(pick, stack). [Deliver SIGQUIT, Turn pick stack]) turns)) s =
           Loop_waiting (s\<lparr>trace := trace s @ concat (map (\<lambda>(pick, stack).
             [Log [''sighandler'', ''=== received SIGQUIT ===''],
              Log [''sighandler'', ''*** goroutine dump...start ***''],
              Log [''sighandler'', take (2 ^ 20) stack],
              Log [''sighandler'', ''*** goroutine dump...end ***'']]) turns)\<rparr>)"
  using assms
proof (induction turns arbitrary: s)
  case Nil
  then show ?case by simp
next
  case (Cons t turns)
  obtain pick stack where t: "t = (pick, stack)"
    by (cases t)
  let ?s' = "s\<lparr>trace := trace s @
     [Log [''sighandler'', ''=== received SIGQUIT ===''],
      Log [''sighandler'', ''*** goroutine dump...start ***''],
      Log [''sighandler'', take (2 ^ 20) stack],
      Log [''sighandler'', ''*** goroutine dump...end ***'']]\<rparr>"
  have p: "quit (hdl s) = Open \<or> \<not> pick"
    using Cons.prems(3) t by auto
  have turn: "Loop_iter pick stack (Notify_deliver SIGQUIT s) = ?s'"
    using Cons.prems(1,2) p by (rule SIGQUIT_turn)
  have st: "status (Notify_deliver SIGQUIT s) = In_select"
    using Cons.prems(1) by (simp add: Notify_deliver_def)
  have "run_Loop (concat (map (\<lambda>(pick, stack). [Deliver SIGQUIT, Turn pick stack]) turns)) ?s' =
           Loop_waiting (?s'\<lparr>trace := trace ?s' @ concat (map (\<lambda>(pick, stack).
             [Log [''sighandler'', ''=== received SIGQUIT ===''],
              Log [''sighandler'', ''*** goroutine dump...start ***''],
              Log [''sighandler'', take (2 ^ 20) stack],
              Log [''sighandler'', ''*** goroutine dump...end ***'']]) turns)\<rparr>)"
    using Cons.prems by (intro Cons.IH) auto
  then show ?case
    using Cons.prems(1) st by (simp add: t turn)
qed

text \<open>Two SIGQUITs in a row on a new Handler: eight entries, and the loop still waits.\<close>

theorem SIGQUIT_never_returns_witness:
  "Loop (NewHandler silent_Logger [SignalReceiver ''db'' None]) []
        [Deliver SIGQUIT, Turn True ''goroutine 1 [running]:'',
         Deliver SIGQUIT, Turn False ''goroutine 7 [select]:'']
     = Loop_waiting
         \<lparr>hdl = NewHandler silent_Logger [SignalReceiver ''db'' None], sigs = None,
          status = In_select,
          trace = [Log [''sighandler'', ''=== received SIGQUIT ===''],
                   Log [''sighandler'', ''*** goroutine dump...start ***''],
                   Log [''sighandler'', ''goroutine 1 [running]:''],
                   Log [''sighandler'', ''*** goroutine dump...end ***''],
                   Log [''sighandler'', ''=== received SIGQUIT ===''],
                   Log [''sighandler'', ''*** goroutine dump...start ***''],
                   Log [''sighandler'', ''goroutine 7 [select]:''],
                   Log [''sighandler'', ''*** goroutine dump...end ***'']]\<rparr>"
  using SIGQUIT_never_returns [of "Loop_enter (NewHandler silent_Logger [SignalReceiver ''db'' None]) []"
          "[(True, ''goroutine 1 [running]:''), (False, ''goroutine 7 [select]:'')]"]
  by (simp add: Loop_def Loop_enter_def NewHandler_def)

subsection \<open>Loop on a closed stop channel\<close>

text \<open>
  C4: a \<open>Loop\<close> that waits while the stop channel is closed, and whose \<open>select\<close> takes that
  case (no signal is pending, or \<open>select\<close> picks the stop channel), logs the stop notice
  and returns at once: the notice is the only effect added, no receiver is stopped, and
  the rest of the schedule is not looked at.
\<close>

theorem Loop_stopped_returns:
  assumes "status s = In_select" and "quit (hdl s) = Closed" and "sigs s = None \<or> pick"
  shows "run_Loop (Turn pick stack # rest) s =
           Loop_returned (s\<lparr>status := Returned,
              trace := trace s @ [Log [''sighandler'', Stopped_notice]]\<rparr>)"
  using assms by (rule Loop_stopped_returns_aux)

text \<open>
  A Handler with two receivers, stopped while a SIGTERM is pending: \<open>select\<close> picks the
  stop channel, and neither receiver is stopped.
\<close>

theorem Loop_stopped_returns_witness:
  "run_Loop [Turn True ''stack'', Deliver SIGINT]
     \<lparr>hdl = \<lparr>log = silent_Logger,
             receivers = [SignalReceiver ''db'' None, SignalReceiver ''api'' None],
             quit = Closed\<rparr>,
      sigs = Some SIGTERM, status = In_select, trace = []\<rparr>
   = Loop_returned
       \<lparr>hdl = \<lparr>log = silent_Logger,
               receivers = [SignalReceiver ''db'' None, SignalReceiver ''api'' None],
               quit = Closed\<rparr>,
        sigs = Some SIGTERM, status = Returned,
        trace = [Log [''sighandler'', Stopped_notice]]\<rparr>"
  using Loop_stopped_returns [of "\<lparr>hdl = \<lparr>log = silent_Logger,
             receivers = [SignalReceiver ''db'' None, SignalReceiver ''api'' None],
             quit = Closed\<rparr>,
      sigs = Some SIGTERM, status = In_select, trace = []\<rparr>" True "''stack''" "[Deliver SIGINT]"]
  by simp

subsection \<open>Stop before Loop\<close>

text \<open>
  Signals that arrive one after the other while the loop does not take a turn: the first
  of them that \<open>Notify\<close> relays fills \<open>sigs\<close>, the others are lost.
\<close>

lemma run_Loop_Deliver:
  "status s = In_select \<Longrightarrow>
     run_Loop (map Deliver sgs @ Turn pick stack # rest) s =
       run_Loop (Turn pick stack # rest)
         (s\<lparr>sigs := (case sigs s of
                        None \<Rightarrow> find (\<lambda>sg. sg \<in> {SIGINT, SIGQUIT, SIGTERM}) sgs
                      | Some sg \<Rightarrow> Some sg)\<rparr>)"
proof (induction sgs arbitrary: s)
  case Nil
  have e: "s\<lparr>sigs := (case sigs s of
                         None \<Rightarrow> find (\<lambda>sg. sg \<in> {SIGINT, SIGQUIT, SIGTERM}) []
                       | Some sg \<Rightarrow> Some sg)\<rparr> = s"
    by (cases "sigs s") simp_all
  show ?case
    by (simp only: e list.map append_Nil)
next
  case (Cons sg sgs)
  have st: "status (Notify_deliver sg s) = In_select"
    using Cons.prems by (simp add: Notify_deliver_def)
  have "run_Loop (map Deliver (sg # sgs) @ Turn pick stack # rest) s =
          run_Loop (map Deliver sgs @ Turn pick stack # rest) (Notify_deliver sg s)"
    using Cons.prems by simp
  also have "\<dots> = run_Loop (Turn pick stack # rest)
         ((Notify_deliver sg s)\<lparr>sigs := (case sigs (Notify_deliver sg s) of
                        None \<Rightarrow> find (\<lambda>sg. sg \<in> {SIGINT, SIGQUIT, SIGTERM}) sgs
                      | Some sg \<Rightarrow> Some sg)\<rparr>)"
    using st by (rule Cons.IH)
  also have "(Notify_deliver sg s)\<lparr>sigs := (case sigs (Notify_deliver sg s) of
                        None \<Rightarrow> find (\<lambda>sg. sg \<in> {SIGINT, SIGQUIT, SIGTERM}) sgs
                      | Some sg \<Rightarrow> Some sg)\<rparr> =
         s\<lparr>sigs := (case sigs s of
                        None \<Rightarrow> find (\<lambda>sg. sg \<in> {SIGINT, SIGQUIT, SIGTERM}) (sg # sgs)
                      | Some sg \<Rightarrow> Some sg)\<rparr>"
    by (cases "sigs s") (auto simp: Notify_deliver_def)
  finally show ?case .
qed

text \<open>
  C9, as it is written: when \<open>Stop\<close> was called before \<open>Loop\<close> is entered, \<open>Loop\<close> returns
  through the stop case, with no receiver stopped. \<open>Loop\<close> asks for the signals before it
  selects for the first time. A SIGTERM that arrives in between is pending at that
  \<open>select\<close> together with the closed stop channel, and \<open>select\<close> may pick it: then the
  stopped Handler logs the receipt of the signal and stops its receiver.
\<close>

theorem Stop_before_Loop_signal_race:
  "Stop (NewHandler silent_Logger [SignalReceiver ''db'' None])
     = Inr \<lparr>log = silent_Logger, receivers = [SignalReceiver ''db'' None], quit = Closed\<rparr>
   \<and> Loop \<lparr>log = silent_Logger, receivers = [SignalReceiver ''db'' None], quit = Closed\<rparr> []
          [Deliver SIGTERM, Turn False ''stack'']
     = Loop_returned
         \<lparr>hdl = \<lparr>log = silent_Logger, receivers = [SignalReceiver ''db'' None], quit = Closed\<rparr>,
          sigs = None, status = Returned,
          trace = [Log [''sighandler'', ''=== received SIGINT/SIGTERM ===''],
                   Stop_called ''db'' None]\<rparr>"
  by (simp add: Stop_def close_chan_def NewHandler_def Loop_def Loop_enter_def Notify_deliver_def
        Loop_iter_def case_sig_def Log_call_eq)

text \<open>
  C9, amended: \<open>Stop\<close> on a new Handler succeeds and closes the stop channel. A \<open>Loop\<close>
  entered after that returns at its first \<open>select\<close> through the stop case, logging the
  stop notice and stopping no receiver, whenever none of SIGINT, SIGQUIT and SIGTERM has
  arrived since \<open>Loop\<close> was entered, or \<open>select\<close> picks the stop channel over the pending
  signal. This holds whatever the logger and the receivers, whatever signals arrive before
  that \<open>select\<close> and whatever comes after it; a signal that was pending stays in \<open>sigs\<close>.
\<close>

theorem Stop_before_Loop_first_select:
  assumes "pick \<or> find (\<lambda>sg. sg \<in> {SIGINT, SIGQUIT, SIGTERM}) sgs = None"
  shows "Stop (NewHandler lg rs) = Inr \<lparr>log = lg, receivers = rs, quit = Closed\<rparr>
   \<and> Loop \<lparr>log = lg, receivers = rs, quit = Closed\<rparr> tr
        (map Deliver sgs @ Turn pick stack # rest) =
       Loop_returned \<lparr>hdl = \<lparr>log = lg, receivers = rs, quit = Closed\<rparr>,
                      sigs = find (\<lambda>sg. sg \<in> {SIGINT, SIGQUIT, SIGTERM}) sgs,
                      status = Returned, trace = tr @ [Log [''sighandler'', Stopped_notice]]\<rparr>"
proof
  show "Stop (NewHandler lg rs) = Inr \<lparr>log = lg, receivers = rs, quit = Closed\<rparr>"
    by (simp add: Stop_def close_chan_def NewHandler_def)
next
  let ?h = "\<lparr>log = lg, receivers = rs, quit = Closed\<rparr>"
  let ?f = "find (\<lambda>sg. sg \<in> {SIGINT, SIGQUIT, SIGTERM}) sgs"
  let ?s = "\<lparr>hdl = ?h, sigs = ?f, status = In_select, trace = tr\<rparr>"
  have "Loop ?h tr (map Deliver sgs @ Turn pick stack # rest) =
          run_Loop (Turn pick stack # rest) ?s"
    unfolding Loop_def
    by (subst run_Loop_Deliver) (simp_all add: Loop_enter_def)
  also have "\<dots> = Loop_returned (?s\<lparr>status := Returned,
                       trace := trace ?s @ [Log [''sighandler'', Stopped_notice]]\<rparr>)"
    using assms by (intro Loop_stopped_returns_aux) auto
  finally show "Loop ?h tr (map Deliver sgs @ Turn pick stack # rest) =
       Loop_returned \<lparr>hdl = ?h, sigs = ?f, status = Returned,
                      trace = tr @ [Log [''sighandler'', Stopped_notice]]\<rparr>"
    by simp
qed

text \<open>
  A SIGHUP, which is not relayed, and a SIGTERM arrive before the first \<open>select\<close>, and
  \<open>select\<close> picks the stop channel: the SIGTERM stays in \<open>sigs\<close>, no receiver is stopped.
\<close>

theorem Stop_before_Loop_first_select_witness:
  "Stop (NewHandler silent_Logger [SignalReceiver ''db'' None])
     = Inr \<lparr>log = silent_Logger, receivers = [SignalReceiver ''db'' None], quit = Closed\<rparr>
   \<and> Loop \<lparr>log = silent_Logger, receivers = [SignalReceiver ''db'' None], quit = Closed\<rparr> []
          [Deliver (Other_signal 1), Deliver SIGTERM, Turn True ''stack'', Deliver SIGINT]
     = Loop_returned
         \<lparr>hdl = \<lparr>log = silent_Logger, receivers = [SignalReceiver ''db'' None], quit = Closed\<rparr>,
          sigs = Some SIGTERM, status = Returned,
          trace = [Log [''sighandler'', Stopped_notice]]\<rparr>"
  using Stop_before_Loop_first_select [of True "[Other_signal 1, SIGTERM]" silent_Logger
          "[SignalReceiver ''db'' None]" "[]" "''stack''" "[Deliver SIGINT]"]
  by simp

section \<open>The Server: New, Run and Shutdown\<close>

subsection \<open>Auxiliary facts\<close>

lemma New_Some:
  assumes "New L config lg w = ((Some s, e), w')"
  shows "cfg s = config" and "handler s = NewHandler lg []"
    and "HTTP s = (if RegisterInstrumentation config
                   then Register_Instrumentation mux_NewRouter else mux_NewRouter)"
    and "Handler_of (httpServer s) = (\<lambda>rt. Merge (HTTPMiddleware config) (ServeHTTP rt))"
    and "e = None"
  using assms by (auto simp: New_def Let_def split: sum.splits prod.splits)

text \<open>What came before \<open>Loop\<close> stays in front of what \<open>Loop\<close> adds, and changes nothing else.\<close>

lemma Loop_iter_prefix:
  "Loop_iter p d (s\<lparr>trace := tr @ trace s\<rparr>) =
     (Loop_iter p d s)\<lparr>trace := tr @ trace (Loop_iter p d s)\<rparr>"
  by (simp add: Loop_iter_def case_quit_def case_sig_def Log_call_eq stop_receivers_eq
        runtime_Stack_def split: status.split option.split chan.split)

lemma step_prefix:
  "step a (s\<lparr>trace := tr @ trace s\<rparr>) =
     (case step a s of Inl p \<Rightarrow> Inl p | Inr s' \<Rightarrow> Inr (s'\<lparr>trace := tr @ trace s'\<rparr>))"
  by (cases a) (simp_all add: Loop_iter_prefix Notify_deliver_def split: sum.split)

lemma run_Loop_prefix:
  "run_Loop sched (s\<lparr>trace := tr @ trace s\<rparr>) =
     (case run_Loop sched s of
        Loop_returned st \<Rightarrow> Loop_returned (st\<lparr>trace := tr @ trace st\<rparr>)
      | Loop_waiting st \<Rightarrow> Loop_waiting (st\<lparr>trace := tr @ trace st\<rparr>)
      | Process_dead p \<Rightarrow> Process_dead p)"
proof (induction sched arbitrary: s)
  case Nil
  then show ?case by simp
next
  case (Cons a as)
  show ?case
  proof (cases "step a s")
    case (Inl p)
    then show ?thesis by (simp add: step_prefix)
  next
    case (Inr s')
    then show ?thesis by (simp add: step_prefix Cons.IH)
  qed
qed

lemma Loop_prefix:
  "Loop h tr sched =
     (case Loop h [] sched of
        Loop_returned st \<Rightarrow> Loop_returned (st\<lparr>trace := tr @ trace st\<rparr>)
      | Loop_waiting st \<Rightarrow> Loop_waiting (st\<lparr>trace := tr @ trace st\<rparr>)
      | Process_dead p \<Rightarrow> Process_dead p)"
  using run_Loop_prefix [where sched = sched and s = "Loop_enter h []" and tr = tr]
  by (simp add: Loop_def Loop_enter_def)

text \<open>\<open>Loop\<close> itself never stops the gRPC server.\<close>

lemma Loop_iter_no_GracefulStop:
  "GRPC_GracefulStop \<notin> set (trace s) \<Longrightarrow> GRPC_GracefulStop \<notin> set (trace (Loop_iter p d s))"
  by (auto simp: Loop_iter_def case_quit_def case_sig_def Log_call_eq stop_receivers_eq
        runtime_Stack_def split: status.split option.split chan.split)

lemma step_no_GracefulStop:
  "GRPC_GracefulStop \<notin> set (trace s) \<Longrightarrow> step a s = Inr s' \<Longrightarrow>
     GRPC_GracefulStop \<notin> set (trace s')"
  by (cases a)
     (auto simp: Loop_iter_no_GracefulStop Notify_deliver_def split: sum.splits if_splits)

lemma run_Loop_no_GracefulStop:
  "GRPC_GracefulStop \<notin> set (trace s) \<Longrightarrow>
     (case run_Loop sched s of
        Loop_returned st \<Rightarrow> GRPC_GracefulStop \<notin> set (trace st)
      | Loop_waiting st \<Rightarrow> GRPC_GracefulStop \<notin> set (trace st)
      | Process_dead p \<Rightarrow> True)"
proof (induction sched arbitrary: s)
  case Nil
  then show ?case by simp
next
  case (Cons a as)
  show ?case
  proof (cases "step a s")
    case (Inl p)
    then show ?thesis using Cons.prems by simp
  next
    case (Inr s')
    then have "GRPC_GracefulStop \<notin> set (trace s')"
      using Cons.prems step_no_GracefulStop by blast
    then show ?thesis
      using Inr Cons.prems Cons.IH [of s'] by simp
  qed
qed

lemma Merge_visiting: "Merge (map visiting names) h req = names @ h req"
  by (induction names) (simp_all add: Merge_def visiting_def)

lemma Match_instrumentation:
  assumes "req = ''/metrics'' \<or> req = ''/debug/pprof'' @ rest"
  shows "Match (Register_Instrumentation mux_NewRouter @ app) req =
           Some (if req = ''/metrics'' then prometheus_Handler else http_DefaultServeMux)"
  using assms by (auto simp: Register_Instrumentation_def mux_NewRouter_def)

lemma ServeHTTP_instrumentation:
  assumes "req = ''/metrics'' \<or> req = ''/debug/pprof'' @ rest"
  shows "ServeHTTP (Register_Instrumentation mux_NewRouter @ app) req =
           (if cleanPath req = req
            then (if req = ''/metrics'' then [''prometheus.Handler'']
                  else [''http.DefaultServeMux''])
            else [''301 Moved Permanently'', cleanPath req])"
  unfolding ServeHTTP_def Let_def Match_instrumentation [OF assms]
  by (simp add: prometheus_Handler_def http_DefaultServeMux_def)

subsection \<open>New when a listener cannot be bound\<close>

text \<open>
  C5, as the spec has it: the error of \<open>New\<close> reports which stage failed, the HTTP listener
  or the RPC listener. Take the default configuration with both ports set to 80. When
  port 80 is taken already, the HTTP stage fails (line 75) and nothing is bound; when no
  port is taken, the HTTP listener binds port 80 and the RPC stage fails on it (line 80).
  The message of the error is the same in both runs, and names neither stage.
\<close>

theorem New_same_message_both_stages:
  "New Listen_ports (default_Config\<lparr>GRPCListenPort := 80\<rparr>) silent_Logger ['':80'']
     = ((None, Some (withStack (withMessage
          (errorString ''listen tcp :80: bind: address already in use'') ''New Server'') 75)),
        ['':80''])
   \<and> New Listen_ports (default_Config\<lparr>GRPCListenPort := 80\<rparr>) silent_Logger []
     = ((None, Some (withStack (withMessage
          (errorString ''listen tcp :80: bind: address already in use'') ''New Server'') 80)),
        ['':80''])
   \<and> map_option Error (snd (fst (New Listen_ports (default_Config\<lparr>GRPCListenPort := 80\<rparr>)
                                    silent_Logger ['':80''])))
     = Some ''New Server: listen tcp :80: bind: address already in use''
   \<and> map_option Error (snd (fst (New Listen_ports (default_Config\<lparr>GRPCListenPort := 80\<rparr>)
                                    silent_Logger [])))
     = Some ''New Server: listen tcp :80: bind: address already in use''"
  by (simp add: New_def default_Config_def port_address_def show_int_def Listen_ports_def)

text \<open>
  C5, amended: for every configuration, logger and operating system, when the bind of the
  HTTP listener fails, or that of the RPC listener after it, \<open>New\<close> returns no server and
  the error of the bind wrapped with the one context \<open>New Server\<close>, the same at both
  stages. The message of the error returned is \<open>New Server: \<close> followed by the message of
  the listener's error: it does not say which stage failed. When both binds succeed there
  is no error.
\<close>

theorem New_bind_error:
  "(case L w ''tcp'' (port_address (HTTPListenPort config)) of
      Inl err \<Rightarrow>
        New L config lg w = ((None, Some (withStack (withMessage err ''New Server'') 75)), w)
    | Inr (httpL, w1) \<Rightarrow>
        (case L w1 ''tcp'' (port_address (GRPCListenPort config)) of
           Inl err \<Rightarrow>
             New L config lg w = ((None, Some (withStack (withMessage err ''New Server'') 80)), w1)
         | Inr (grpcL, w2) \<Rightarrow> snd (fst (New L config lg w)) = None))
   \<and> map_option Error (snd (fst (New L config lg w))) =
     (case L w ''tcp'' (port_address (HTTPListenPort config)) of
        Inl err \<Rightarrow> Some (''New Server: '' @ Error err)
      | Inr (httpL, w1) \<Rightarrow>
          (case L w1 ''tcp'' (port_address (GRPCListenPort config)) of
             Inl err \<Rightarrow> Some (''New Server: '' @ Error err)
           | Inr (grpcL, w2) \<Rightarrow> None))"
  by (simp add: New_def Let_def split: sum.split prod.split)

text \<open>
  C6: for every configuration, logger and operating system in which the HTTP listener is
  bound and the bind of the RPC listener then fails, \<open>New\<close> returns a nil server together
  with the wrapped error. (The HTTP listener stays bound: the state returned is the one
  after the first bind.)
\<close>

theorem New_rpc_bind_failure:
  assumes "L w ''tcp'' (port_address (HTTPListenPort config)) = Inr (httpL, w1)"
    and "L w1 ''tcp'' (port_address (GRPCListenPort config)) = Inl err"
  shows "New L config lg w = ((None, Some (withStack (withMessage err ''New Server'') 80)), w1)"
  using assms by (simp add: New_def)

text \<open>The default configuration on a system where port 9095 is taken and port 80 is free.\<close>

theorem New_rpc_bind_failure_witness:
  "New Listen_ports default_Config silent_Logger ['':9095'']
     = ((None, Some (withStack (withMessage
          (errorString ''listen tcp :9095: bind: address already in use'') ''New Server'') 80)),
        ['':80'', '':9095''])"
  using New_rpc_bind_failure [of Listen_ports "['':9095'']" default_Config "Listener '':80''"
          "['':80'', '':9095'']" "errorString ''listen tcp :9095: bind: address already in use''"
          silent_Logger]
  by (simp add: default_Config_def port_address_def show_int_def Listen_ports_def)

subsection \<open>Run\<close>

text \<open>
  C7: for every server, every schedule and whatever the two \<open>Serve\<close> calls end with, \<open>Run\<close>
  first starts \<open>httpServer.Serve\<close> on the HTTP listener and \<open>GRPC.Serve\<close> on the gRPC
  listener, each with a \<open>go\<close> statement that drops its result, and then does what \<open>Loop\<close> of
  its own Handler does. While that \<open>Loop\<close> waits, \<open>Run\<close> is blocked and the gRPC server has
  not been stopped; when it returns, \<open>Run\<close> ends with \<open>GRPC.GracefulStop\<close>, once, as its last
  effect, and returns.
\<close>

theorem Run_order:
  "Run s http_err grpc_err sched =
     (case Loop (handler s) [] sched of
        Loop_returned st \<Rightarrow>
          Run_returned ([Go_HTTP_Serve (laddr (httpListener s)) http_err,
                         Go_GRPC_Serve (laddr (grpcListener s)) grpc_err]
                        @ trace st @ [GRPC_GracefulStop])
      | Loop_waiting st \<Rightarrow>
          Run_blocked ([Go_HTTP_Serve (laddr (httpListener s)) http_err,
                        Go_GRPC_Serve (laddr (grpcListener s)) grpc_err] @ trace st)
      | Process_dead p \<Rightarrow> Run_dead p)
   \<and> (case Loop (handler s) [] sched of
        Loop_returned st \<Rightarrow> GRPC_GracefulStop \<notin> set (trace st)
      | Loop_waiting st \<Rightarrow> GRPC_GracefulStop \<notin> set (trace st)
      | Process_dead p \<Rightarrow> True)"
proof
  show "Run s http_err grpc_err sched =
     (case Loop (handler s) [] sched of
        Loop_returned st \<Rightarrow>
          Run_returned ([Go_HTTP_Serve (laddr (httpListener s)) http_err,
                         Go_GRPC_Serve (laddr (grpcListener s)) grpc_err]
                        @ trace st @ [GRPC_GracefulStop])
      | Loop_waiting st \<Rightarrow>
          Run_blocked ([Go_HTTP_Serve (laddr (httpListener s)) http_err,
                        Go_GRPC_Serve (laddr (grpcListener s)) grpc_err] @ trace st)
      | Process_dead p \<Rightarrow> Run_dead p)"
    unfolding Run_def
    by (subst Loop_prefix) (simp split: loop_outcome.split)
next
  show "(case Loop (handler s) [] sched of
        Loop_returned st \<Rightarrow> GRPC_GracefulStop \<notin> set (trace st)
      | Loop_waiting st \<Rightarrow> GRPC_GracefulStop \<notin> set (trace st)
      | Process_dead p \<Rightarrow> True)"
    unfolding Loop_def
    by (rule run_Loop_no_GracefulStop) (simp add: Loop_enter_def)
qed

text \<open>
  The server of the default configuration, run until somebody calls \<open>Stop\<close>; the HTTP
  server ends with an error that goes nowhere. And the same server while nothing happens.
\<close>

lemma Run_default_stopped:
  "(case fst (fst (New Listen_ports default_Config silent_Logger [])) of
      None \<Rightarrow> Run_blocked []
    | Some s \<Rightarrow> Run s (Some ''http: Server closed'') None
                  [Deliver SIGQUIT, Call_Stop, Turn True ''dump''])
   = Run_returned [Go_HTTP_Serve '':80'' (Some ''http: Server closed''),
                   Go_GRPC_Serve '':9095'' None,
                   Log [''sighandler'', Stopped_notice], GRPC_GracefulStop]"
  by (simp add: New_def default_Config_def port_address_def show_int_def Listen_ports_def
        Run_def Loop_def Loop_enter_def NewHandler_def Notify_deliver_def Stop_def close_chan_def
        Loop_iter_def case_quit_def Log_call_eq)

lemma Run_default_blocked:
  "(case fst (fst (New Listen_ports default_Config silent_Logger [])) of
      None \<Rightarrow> Run_returned []
    | Some s \<Rightarrow> Run s None None [Turn True ''dump'', Turn False ''dump''])
   = Run_blocked [Go_HTTP_Serve '':80'' None, Go_GRPC_Serve '':9095'' None]"
  by (simp add: New_def default_Config_def port_address_def show_int_def Listen_ports_def
        Run_def Loop_def Loop_enter_def NewHandler_def Loop_iter_def)

subsection \<open>Shutdown\<close>



subsection \<open>The middleware around the instrumentation routes\<close>

text \<open>
  C10: for every server that \<open>New\<close> made from a configuration with
  \<open>RegisterInstrumentation\<close> set, whatever routes the application has added since, a
  request for \<open>/metrics\<close> or for a path that starts with \<open>/debug/pprof\<close> is answered
  by the merged middleware of the configuration wrapped around the whole router. Inside,
  the router hands a request whose path is clean to the instrumentation handler, and
  answers one whose path is not with a redirection to the clean path. So a chain of
  middleware that let requests through sees the request in each of its members, in order,
  before the router and the instrumentation handler do.
\<close>

theorem middleware_wraps_instrumentation:
  assumes "New L config lg w = ((Some s, e), w')" and "RegisterInstrumentation config"
    and "req = ''/metrics'' \<or> req = ''/debug/pprof'' @ rest"
  shows "serve_request (s\<lparr>HTTP := HTTP s @ app\<rparr>) req =
           Merge (HTTPMiddleware config) (ServeHTTP (HTTP s @ app)) req
         \<and> ServeHTTP (HTTP s @ app) req =
             (if cleanPath req = req
              then (if req = ''/metrics'' then [''prometheus.Handler'']
                    else [''http.DefaultServeMux''])
              else [''301 Moved Permanently'', cleanPath req])
         \<and> Merge (map visiting names) (ServeHTTP (HTTP s @ app)) req =
             names @ (if cleanPath req = req
                      then (if req = ''/metrics'' then [''prometheus.Handler'']
                            else [''http.DefaultServeMux''])
                      else [''301 Moved Permanently'', cleanPath req])"
proof -
  have r: "HTTP s = Register_Instrumentation mux_NewRouter"
    using New_Some(3) [OF assms(1)] assms(2) by simp
  have h: "Handler_of (httpServer s) = (\<lambda>rt. Merge (HTTPMiddleware config) (ServeHTTP rt))"
    using New_Some(4) [OF assms(1)] .
  have i: "ServeHTTP (HTTP s @ app) req =
             (if cleanPath req = req
              then (if req = ''/metrics'' then [''prometheus.Handler'']
                    else [''http.DefaultServeMux''])
              else [''301 Moved Permanently'', cleanPath req])"
    unfolding r using assms(3) by (rule ServeHTTP_instrumentation)
  have a: "serve_request (s\<lparr>HTTP := HTTP s @ app\<rparr>) req =
             Merge (HTTPMiddleware config) (ServeHTTP (HTTP s @ app)) req"
    by (simp add: serve_request_def h)
  have v: "Merge (map visiting names) (ServeHTTP (HTTP s @ app)) req =
             names @ ServeHTTP (HTTP s @ app) req"
    by (rule Merge_visiting)
  show ?thesis
    using a i v by simp
qed

text \<open>
  Two middleware, \<open>auth\<close> and \<open>log\<close>, an application route \<open>/api\<close>, and a request
  for the heap profile.
\<close>

theorem middleware_wraps_instrumentation_witness:
  "(case fst (fst (New Listen_ports
        (default_Config\<lparr>HTTPMiddleware := map visiting [''auth'', ''log'']\<rparr>) silent_Logger [])) of
      None \<Rightarrow> []
    | Some s \<Rightarrow> serve_request (s\<lparr>HTTP := HTTP s @ [(Path ''/api'', (\<lambda>req. [''app'']))]\<rparr>)
                  ''/debug/pprof/heap'')
   = [''auth'', ''log'', ''http.DefaultServeMux'']"
proof -
  let ?c = "default_Config\<lparr>HTTPMiddleware := map visiting [''auth'', ''log'']\<rparr>"
  obtain s e w' where n: "New Listen_ports ?c silent_Logger [] = ((Some s, e), w')"
    by (simp add: New_def default_Config_def port_address_def show_int_def Listen_ports_def)
  have i: "RegisterInstrumentation ?c"
    by (simp add: default_Config_def)
  have p: "''/debug/pprof/heap'' = ''/metrics'' \<or> ''/debug/pprof/heap'' = ''/debug/pprof'' @ ''/heap''"
    by simp
  have c: "cleanPath ''/debug/pprof/heap'' = ''/debug/pprof/heap''"
    by (simp add: cleanPath_def path_Clean_def)
  show ?thesis
    unfolding n
    using middleware_wraps_instrumentation
            [OF n i p, of "[(Path ''/api'', (\<lambda>req. [''app'']))]" "[''auth'', ''log'']"]
    by (simp add: c)
qed

text \<open>
  The same server and a request for \<open>/debug/pprof/./heap\<close>: both middleware see it, and
  the router redirects it. A request for the application's route, and one for no route.
\<close>

lemma serve_request_unclean_path:
  "(case fst (fst (New Listen_ports
        (default_Config\<lparr>HTTPMiddleware := map visiting [''auth'', ''log'']\<rparr>) silent_Logger [])) of
      None \<Rightarrow> []
    | Some s \<Rightarrow> serve_request (s\<lparr>HTTP := HTTP s @ [(Path ''/api'', (\<lambda>req. [''app'']))]\<rparr>)
                  ''/debug/pprof/./heap'')
   = [''auth'', ''log'', ''301 Moved Permanently'', ''/debug/pprof/heap'']"
  by (simp add: New_def default_Config_def port_address_def show_int_def Listen_ports_def
        serve_request_def Merge_def visiting_def ServeHTTP_def cleanPath_def path_Clean_def)

lemma serve_request_application_route:
  "(case fst (fst (New Listen_ports
        (default_Config\<lparr>HTTPMiddleware := map visiting [''auth'', ''log'']\<rparr>) silent_Logger [])) of
      None \<Rightarrow> []
    | Some s \<Rightarrow> serve_request (s\<lparr>HTTP := HTTP s @ [(Path ''/api'', (\<lambda>req. [''app'']))]\<rparr>)
                  ''/api'' @
                serve_request (s\<lparr>HTTP := HTTP s @ [(Path ''/api'', (\<lambda>req. [''app'']))]\<rparr>)
                  ''/nothing'')
   = [''auth'', ''log'', ''app'', ''auth'', ''log'', ''404 page not found'']"
  by (simp add: New_def default_Config_def port_address_def show_int_def Listen_ports_def
        serve_request_def Merge_def visiting_def ServeHTTP_def cleanPath_def path_Clean_def
        Register_Instrumentation_def mux_NewRouter_def http_NotFoundHandler_def)

end
